theory Spec2Isabelle
  imports Main
begin

section \<open>Python values, errors and the objects the middleware touches\<close>

text \<open>
  The exceptions that can leave the code of \<^verbatim>\<open>middlewares.py\<close>: the \<^verbatim>\<open>ValueError\<close> of the
  constructor (and of a connection URL that cannot be parsed), the \<^verbatim>\<open>AttributeError\<close> of
  calling a method on a \<^verbatim>\<open>None\<close> connection, the \<^verbatim>\<open>KeyError\<close> of \<^verbatim>\<open>dict.pop\<close>, the two
  failures of \<^verbatim>\<open>pickle\<close> (\<open>PicklingError\<close> is whatever \<^verbatim>\<open>pickle.dumps\<close> raises and
  \<open>UnpicklingError\<close> whatever \<^verbatim>\<open>pickle.loads\<close> raises), the control signal
  \<^verbatim>\<open>SentinelException\<close> declared in the package's \<^verbatim>\<open>__init__\<close>, and the framework's
  \<^verbatim>\<open>HTTPUnsupportedMediaType\<close>, which a property setter of the response may raise.
\<close>

datatype error =
  ValueError | AttributeError | KeyError | PicklingError | UnpicklingError | SentinelException
  | HTTPUnsupportedMediaType

text \<open>The values a resource attribute may hold; \<^verbatim>\<open>is True\<close> holds of \<open>PyBool True\<close> only.\<close>

datatype pyobj = PyNone | PyBool bool | PyInt int | PyStr string

text \<open>
  A response object of the framework, as far as a client observes it: the status line, the
  header mapping, the body given as text (\<^verbatim>\<open>body\<close>) or as bytes (\<^verbatim>\<open>data\<close>), the media
  object (held as its serialised text) and the stream a handler may attach instead of a
  body. The framework sends \<^verbatim>\<open>body\<close> when it is set and \<^verbatim>\<open>data\<close> otherwise.
\<close>

record response =
  resp_status :: string
  resp_headers :: "(string \<times> string) list"
  resp_body :: "string option"
  resp_data :: "string option"
  resp_media :: "string option"
  resp_stream :: "nat option"

definition default_response :: response where
  "default_response =
     \<lparr>resp_status = ''200 OK'', resp_headers = [], resp_body = None, resp_data = None,
      resp_media = None, resp_stream = None\<rparr>"

definition rendered_body :: "response \<Rightarrow> string option" where
  "rendered_body r = (case resp_body r of Some b \<Rightarrow> Some b | None \<Rightarrow> resp_data r)"

definition observably_equal :: "response \<Rightarrow> response \<Rightarrow> bool" where
  "observably_equal r r' \<longleftrightarrow>
     resp_status r = resp_status r' \<and> resp_headers r = resp_headers r'
     \<and> rendered_body r = rendered_body r'"

text \<open>
  A request: its method, its headers (names in lower case) and the per-request scratch
  dictionary \<^verbatim>\<open>request.context\<close>. A Python dictionary accepts \<^verbatim>\<open>None\<close> as a key, so the
  context is keyed by optional strings.
\<close>

record request =
  req_method :: string
  req_headers :: "(string \<times> string) list"
  req_context :: "string option \<rightharpoonup> response"

definition get_header :: "request \<Rightarrow> string \<Rightarrow> string option" where
  "get_header q name = map_of (req_headers q) name"

text \<open>\<^verbatim>\<open>if idempotency_key:\<close> is false of \<^verbatim>\<open>None\<close> and of the empty string.\<close>

fun truthy :: "string option \<Rightarrow> bool" where
  "truthy None = False"
| "truthy (Some k) = (k \<noteq> [])"

text \<open>\<^verbatim>\<open>d.pop(k)\<close> with no default: the value and the dictionary without the key, or
  \<^verbatim>\<open>KeyError\<close>.\<close>

definition dict_pop :: "'k \<Rightarrow> ('k \<rightharpoonup> 'v) \<Rightarrow> error + 'v \<times> ('k \<rightharpoonup> 'v)" where
  "dict_pop k d = (case d k of None \<Rightarrow> Inl KeyError | Some v \<Rightarrow> Inr (v, d(k := None)))"

text \<open>
  A routed resource, as far as the middleware looks at it: the two attributes read with
  \<^verbatim>\<open>getattr(resource, name, None)\<close>. \<open>None\<close> is an attribute the resource does not have.
\<close>

record resource =
  idempotent_post :: "pyobj option"
  idempotent_delete :: "pyobj option"

definition getattr_default :: "pyobj option \<Rightarrow> pyobj \<Rightarrow> pyobj" where
  "getattr_default attr d = (case attr of None \<Rightarrow> d | Some v \<Rightarrow> v)"

definition is_True :: "pyobj \<Rightarrow> bool" where
  "is_True v \<longleftrightarrow> v = PyBool True"

text \<open>\<^verbatim>\<open>mixins.py\<close>: both properties return \<^verbatim>\<open>True\<close>.\<close>

definition IdempotentPostMixin_idempotent_post :: pyobj where
  "IdempotentPostMixin_idempotent_post = PyBool True"

definition IdempotentDeleteMixin_idempotent_delete :: pyobj where
  "IdempotentDeleteMixin_idempotent_delete = PyBool True"

text \<open>The resources of \<^verbatim>\<open>tests/conftest.py\<close>.\<close>

definition VanillaResource :: resource where
  "VanillaResource = \<lparr>idempotent_post = None, idempotent_delete = None\<rparr>"

definition POSTOnly :: resource where
  "POSTOnly = VanillaResource\<lparr>idempotent_post := Some IdempotentPostMixin_idempotent_post\<rparr>"

definition DELETEOnly :: resource where
  "DELETEOnly = VanillaResource\<lparr>idempotent_delete := Some IdempotentDeleteMixin_idempotent_delete\<rparr>"

section \<open>The external ports\<close>

text \<open>
  The store is reached through a connection handle. Its state is a table from keys to a
  payload and the time at which the entry expires, together with the log of the commands
  it has received. \<^verbatim>\<open>get\<close> returns an entry only before its expiry; \<^verbatim>\<open>setex(name, value, time)\<close>
  writes an entry that expires \<open>time\<close> seconds after the current clock.
\<close>

datatype redis_handle = Redis string

datatype 'b redis_cmd = GET string | SETEX string 'b int

record 'b state =
  clock :: int
  redis_db :: "string \<rightharpoonup> ('b \<times> int)"
  redis_log :: "'b redis_cmd list"
  req :: request
  resp :: response
  responder_calls :: nat

definition redis_get :: "string \<Rightarrow> 'b state \<Rightarrow> 'b option \<times> 'b state" where
  "redis_get name s =
     ((case redis_db s name of
         None \<Rightarrow> None
       | Some (v, expiry) \<Rightarrow> if clock s < expiry then Some v else None),
      s\<lparr>redis_log := redis_log s @ [GET name]\<rparr>)"

definition redis_setex :: "string \<Rightarrow> 'b \<Rightarrow> int \<Rightarrow> 'b state \<Rightarrow> 'b state" where
  "redis_setex name v time s =
     s\<lparr>redis_db := (redis_db s)(name \<mapsto> (v, clock s + time)),
       redis_log := redis_log s @ [SETEX name v time]\<rparr>"

text \<open>
  The module calls three libraries whose code is not its own; they are parameters of the
  model.
  \<^item> \<^verbatim>\<open>pickle\<close>: \<open>dumps\<close> is \<open>None\<close> where \<^verbatim>\<open>pickle.dumps\<close> raises, \<open>loads\<close> is \<open>None\<close> where
    \<^verbatim>\<open>pickle.loads\<close> raises.
  \<^item> \<^verbatim>\<open>redis.Redis.from_url\<close>: a handle, or \<open>None\<close> where it raises its \<^verbatim>\<open>ValueError\<close> on a
    URL it cannot parse.
  \<^item> The response class of the framework: \<open>dir_response\<close> is \<^verbatim>\<open>dir(r)\<close>, the attribute names
    of a response in sorted order, and \<open>copy_attr p field r\<close> is the statement
    \<^verbatim>\<open>setattr(r, field, getattr(p, field))\<close>: the response \<open>r\<close> as the assignment leaves it,
    and the error when the attribute's getter or setter raises.
\<close>

record 'b externals =
  dumps :: "response \<Rightarrow> 'b option"
  loads :: "'b \<Rightarrow> response option"
  from_url :: "string \<Rightarrow> redis_handle option"
  dir_response :: "response \<Rightarrow> string list"
  copy_attr :: "response \<Rightarrow> string \<Rightarrow> response \<Rightarrow> error option \<times> response"

text \<open>The round trip of the spec's words, \<open>decode(encode(r))\<close>.\<close>

definition decode_encode :: "'b externals \<Rightarrow> response \<Rightarrow> response option" where
  "decode_encode ext r = (case dumps ext r of None \<Rightarrow> None | Some data \<Rightarrow> loads ext data)"

section \<open>\<^verbatim>\<open>_BaseKlass\<close>\<close>

record middleware =
  mw_redis_url :: "string option"
  mw_redis_connection :: "redis_handle option"
  mw_ttl :: int


definition idempotency_keyname :: string where
  "idempotency_keyname = ''idempotency-key''"

text \<open>\<^verbatim>\<open>self.redis_key.format(idempotency_key=..., method=...)\<close> on
  \<^verbatim>\<open>"FALCON_REQUEST_{method}_{idempotency_key}"\<close>.\<close>

definition redis_key_format :: "string \<Rightarrow> string \<Rightarrow> string" where
  "redis_key_format method idempotency_key =
     ''FALCON_REQUEST_'' @ method @ ''_'' @ idempotency_key"

text \<open>
  The property \<^verbatim>\<open>redis_conn\<close>, evaluated inside the hooks: the handle given at
  construction; or, when there is none and the URL is a non-empty string, the handle that
  \<^verbatim>\<open>redis.Redis.from_url\<close> makes from it, or the error that call raises; or \<^verbatim>\<open>None\<close>. (The
  source also memoises the handle it makes in \<^verbatim>\<open>self._redis_connection\<close>; making it again
  gives the same result.)
\<close>

definition redis_conn :: "'b externals \<Rightarrow> middleware \<Rightarrow> error + redis_handle option" where
  "redis_conn ext self =
     (case mw_redis_connection self of
        Some connection \<Rightarrow> Inr (Some connection)
      | None \<Rightarrow>
          (if truthy (mw_redis_url self)
           then (case from_url ext (the (mw_redis_url self)) of
                   None \<Rightarrow> Inl ValueError
                 | Some connection \<Rightarrow> Inr (Some connection))
           else Inr None))"

definition get_response_from_redis ::
  "'b externals \<Rightarrow> middleware \<Rightarrow> string \<Rightarrow> 'b state \<Rightarrow> (error + response option) \<times> 'b state"
  where
  "get_response_from_redis ext self idempotency_key s =
     (let key = redis_key_format (req_method (req s)) idempotency_key in
      case redis_conn ext self of
        Inl e \<Rightarrow> (Inl e, s)
      | Inr None \<Rightarrow> (Inl AttributeError, s)
      | Inr (Some conn) \<Rightarrow>
          (case redis_get key s of
             (None, s') \<Rightarrow> (Inr None, s')
           | (Some data, s') \<Rightarrow>
               (case loads ext data of
                  None \<Rightarrow> (Inl UnpicklingError, s')
                | Some r \<Rightarrow> (Inr (Some r), s'))))"

definition store_response_in_redis ::
  "'b externals \<Rightarrow> middleware \<Rightarrow> string \<Rightarrow> 'b state \<Rightarrow> (error + unit) \<times> 'b state" where
  "store_response_in_redis ext self idempotency_key s =
     (let new_idempotency_key = redis_key_format (req_method (req s)) idempotency_key in
      case redis_conn ext self of
        Inl e \<Rightarrow> (Inl e, s)
      | Inr None \<Rightarrow> (Inl AttributeError, s)
      | Inr (Some conn) \<Rightarrow>
          (case dumps ext (resp s) of
             None \<Rightarrow> (Inl PicklingError, s)
           | Some data \<Rightarrow> (Inr (), redis_setex new_idempotency_key data (mw_ttl self) s)))"

section \<open>\<^verbatim>\<open>SimpleIdempotencyMiddleware\<close>\<close>

definition simple_process_request ::
  "'b externals \<Rightarrow> middleware \<Rightarrow> 'b state \<Rightarrow> (error + unit) \<times> 'b state" where
  "simple_process_request ext self s =
     (let idempotency_key = get_header (req s) idempotency_keyname in
      if truthy idempotency_key then
        (case get_response_from_redis ext self (the idempotency_key) s of
           (Inl e, s') \<Rightarrow> (Inl e, s')
         | (Inr None, s') \<Rightarrow> (Inr (), s')
         | (Inr (Some previous_response), s') \<Rightarrow>
             (Inl SentinelException,
              s'\<lparr>req := (req s')\<lparr>req_context :=
                    (req_context (req s'))(idempotency_key \<mapsto> previous_response)\<rparr>\<rparr>))
      else (Inr (), s))"

definition simple_process_response ::
  "'b externals \<Rightarrow> middleware \<Rightarrow> 'b state \<Rightarrow> (error + unit) \<times> 'b state" where
  "simple_process_response ext self s =
     (let idempotency_key = get_header (req s) idempotency_keyname in
      if truthy idempotency_key then store_response_in_redis ext self (the idempotency_key) s
      else (Inr (), s))"

text \<open>
  The loop \<^verbatim>\<open>for field in dir(previous_response): setattr(response, field,
  getattr(previous_response, field))\<close>: the assignments are made in the order of the names,
  and the first one that raises ends the loop, with the response as it is by then.
\<close>

fun copy_attrs ::
  "(response \<Rightarrow> string \<Rightarrow> response \<Rightarrow> error option \<times> response) \<Rightarrow> response \<Rightarrow> string list
     \<Rightarrow> response \<Rightarrow> error option \<times> response" where
  "copy_attrs assign previous_response [] response = (None, response)"
| "copy_attrs assign previous_response (field # names) response =
     (case assign previous_response field response of
        (Some e, response') \<Rightarrow> (Some e, response')
      | (None, response') \<Rightarrow> copy_attrs assign previous_response names response')"

definition simple_handler ::
  "'b externals \<Rightarrow> middleware \<Rightarrow> 'b state \<Rightarrow> (error + unit) \<times> 'b state" where
  "simple_handler ext self s =
     (let idempotency_key = get_header (req s) idempotency_keyname in
      case dict_pop idempotency_key (req_context (req s)) of
        Inl e \<Rightarrow> (Inl e, s)
      | Inr (previous_response, context') \<Rightarrow>
          (let s' = s\<lparr>req := (req s)\<lparr>req_context := context'\<rparr>\<rparr> in
           case copy_attrs (copy_attr ext) previous_response
                  (dir_response ext previous_response) (resp s') of
             (Some e, response') \<Rightarrow> (Inl e, s'\<lparr>resp := response'\<rparr>)
           | (None, response') \<Rightarrow> (Inr (), s'\<lparr>resp := response'\<rparr>)))"

section \<open>\<^verbatim>\<open>IdempotencyMiddleware\<close>\<close>

definition idem_process_request ::
  "'b externals \<Rightarrow> middleware \<Rightarrow> 'b state \<Rightarrow> (error + unit) \<times> 'b state" where
  "idem_process_request ext self s = (Inr (), s)"

definition idem_process_resource ::
  "'b externals \<Rightarrow> middleware \<Rightarrow> resource \<Rightarrow> 'b state \<Rightarrow> (error + unit) \<times> 'b state" where
  "idem_process_resource ext self rsrc s =
     (if req_method (req s) = ''POST'' \<and> is_True (getattr_default (idempotent_post rsrc) PyNone)
      then simple_process_request ext self s
      else if req_method (req s) = ''DELETE''
              \<and> is_True (getattr_default (idempotent_delete rsrc) PyNone)
      then simple_process_request ext self s
      else (Inr (), s))"

definition idem_process_response ::
  "'b externals \<Rightarrow> middleware \<Rightarrow> 'b state \<Rightarrow> (error + unit) \<times> 'b state" where
  "idem_process_response ext self s = simple_process_response ext self s"

definition idem_handler ::
  "'b externals \<Rightarrow> middleware \<Rightarrow> 'b state \<Rightarrow> (error + unit) \<times> 'b state" where
  "idem_handler ext self s = simple_handler ext self s"

section \<open>The request cycle of the host framework\<close>

text \<open>
  The application of \<^verbatim>\<open>tests/conftest.py\<close>: one middleware, and its \<^verbatim>\<open>handler\<close> registered
  as the error handler of \<^verbatim>\<open>SentinelException\<close>. The framework runs the request hook, then
  the resource hook and the responder of the routed resource. An exception with a
  registered handler goes to that handler, any other one propagates. The response hook of
  the middleware runs afterwards if and only if its request hook returned normally: a
  middleware whose request hook raised is left out of the response phase. An error that
  the handler or the response hook raises is the outcome of the cycle. The responder is the
  application's own code: it receives the number of times it has run before, so that it may
  answer every call differently.
\<close>

type_synonym responder = "nat \<Rightarrow> request \<Rightarrow> response \<Rightarrow> response"

definition call_responder :: "responder \<Rightarrow> 'b state \<Rightarrow> 'b state" where
  "call_responder on_method s =
     s\<lparr>resp := on_method (responder_calls s) (req s) (resp s),
       responder_calls := Suc (responder_calls s)\<rparr>"

definition begin_request :: "int \<Rightarrow> request \<Rightarrow> 'b state \<Rightarrow> 'b state" where
  "begin_request t q s = s\<lparr>clock := t, req := q, resp := default_response\<rparr>"

definition finish ::
  "(error + unit) \<Rightarrow> (error + unit) \<times> 'b state \<Rightarrow> (error + unit) \<times> 'b state" where
  "finish pending after =
     (case fst after of Inl e \<Rightarrow> (Inl e, snd after) | Inr _ \<Rightarrow> (pending, snd after))"

text \<open>
  In \<^verbatim>\<open>SimpleIdempotencyMiddleware\<close> the lookup is in the request hook, so a replay (and any
  other error of that hook) skips the response hook.
\<close>

definition simple_dispatch ::
  "'b externals \<Rightarrow> middleware \<Rightarrow> responder \<Rightarrow> 'b state \<Rightarrow> (error + unit) \<times> 'b state" where
  "simple_dispatch ext mw on_method s =
     (case simple_process_request ext mw s of
        (Inr _, s1) \<Rightarrow>
          finish (Inr ()) (simple_process_response ext mw (call_responder on_method s1))
      | (Inl e, s1) \<Rightarrow>
          if e = SentinelException then simple_handler ext mw s1 else (Inl e, s1))"

text \<open>
  In \<^verbatim>\<open>IdempotencyMiddleware\<close> the request hook returns normally and the lookup is in the
  resource hook, so the response hook runs in every case, also after a replay.
\<close>

definition idem_dispatch ::
  "'b externals \<Rightarrow> middleware \<Rightarrow> resource \<Rightarrow> responder \<Rightarrow> 'b state
     \<Rightarrow> (error + unit) \<times> 'b state" where
  "idem_dispatch ext mw rsrc on_method s =
     (case idem_process_request ext mw s of
        (Inl e, s0) \<Rightarrow> (Inl e, s0)
      | (Inr _, s0) \<Rightarrow>
          (case idem_process_resource ext mw rsrc s0 of
             (Inr _, s1) \<Rightarrow>
               finish (Inr ()) (idem_process_response ext mw (call_responder on_method s1))
           | (Inl e, s1) \<Rightarrow>
               if e = SentinelException then
                 (case idem_handler ext mw s1 of
                    (r2, s2) \<Rightarrow> finish r2 (idem_process_response ext mw s2))
               else finish (Inl e) (idem_process_response ext mw s1)))"

section \<open>Stand-ins for the libraries, and the fixtures of the tests\<close>

text \<open>
  A serialiser whose payload is the tuple of the response's fields; a response with an open
  stream cannot be serialised.
\<close>

type_synonym snapshot =
  "string \<times> (string \<times> string) list \<times> string option \<times> string option \<times> string option"

definition snapshot_dumps :: "response \<Rightarrow> snapshot option" where
  "snapshot_dumps r =
     (if resp_stream r = None
      then Some (resp_status r, resp_headers r, resp_body r, resp_data r, resp_media r)
      else None)"

definition snapshot_loads :: "snapshot \<Rightarrow> response option" where
  "snapshot_loads p =
     (case p of (st, hs, b, d, m) \<Rightarrow>
        Some \<lparr>resp_status = st, resp_headers = hs, resp_body = b, resp_data = d,
              resp_media = m, resp_stream = None\<rparr>)"

text \<open>A \<^verbatim>\<open>from_url\<close> that refuses the URL whose port is not a number.\<close>

definition test_from_url :: "string \<Rightarrow> redis_handle option" where
  "test_from_url url = (if url = ''redis://localhost:abc'' then None else Some (Redis url))"

text \<open>
  The response class, as far as the fields above go: the data attributes, and the property
  \<^verbatim>\<open>media\<close>. Its setter stores the object, gives the response the default media type as its
  content type when it has none, looks up the media handler of the content type, raising
  \<^verbatim>\<open>HTTPUnsupportedMediaType\<close> when there is none, and sets \<^verbatim>\<open>data\<close> to the serialised
  object (\<^verbatim>\<open>null\<close> for \<^verbatim>\<open>None\<close>). The other names that \<^verbatim>\<open>dir\<close> lists (methods, special
  attributes, header properties) are not listed here.
\<close>

definition set_header :: "string \<Rightarrow> string \<Rightarrow> response \<Rightarrow> response" where
  "set_header name v r =
     r\<lparr>resp_headers :=
         (if name \<in> fst ` set (resp_headers r)
          then map (\<lambda>h. if fst h = name then (name, v) else h) (resp_headers r)
          else resp_headers r @ [(name, v)])\<rparr>"

definition default_media_type :: string where
  "default_media_type = ''application/json; charset=UTF-8''"

definition media_handler_exists :: "string \<Rightarrow> bool" where
  "media_handler_exists content_type \<longleftrightarrow>
     content_type = ''application/json'' \<or> content_type = ''application/json; charset=UTF-8''"

definition media_setter :: "string option \<Rightarrow> response \<Rightarrow> error option \<times> response" where
  "media_setter obj r =
     (let r1 = r\<lparr>resp_media := obj\<rparr>;
          r2 = (if truthy (map_of (resp_headers r1) ''content-type'') then r1
                else set_header ''content-type'' default_media_type r1)
      in if media_handler_exists (the (map_of (resp_headers r2) ''content-type''))
         then (None, r2\<lparr>resp_data := Some (case obj of None \<Rightarrow> ''null'' | Some text \<Rightarrow> text)\<rparr>)
         else (Some HTTPUnsupportedMediaType, r2))"

definition test_dir :: "response \<Rightarrow> string list" where
  "test_dir r = [''_headers'', ''_media'', ''body'', ''data'', ''media'', ''status'', ''stream'']"

definition test_copy_attr :: "response \<Rightarrow> string \<Rightarrow> response \<Rightarrow> error option \<times> response" where
  "test_copy_attr previous_response field response =
     (if field = ''_headers''
        then (None, response\<lparr>resp_headers := resp_headers previous_response\<rparr>)
      else if field = ''_media''
        then (None, response\<lparr>resp_media := resp_media previous_response\<rparr>)
      else if field = ''body''
        then (None, response\<lparr>resp_body := resp_body previous_response\<rparr>)
      else if field = ''data''
        then (None, response\<lparr>resp_data := resp_data previous_response\<rparr>)
      else if field = ''media''
        then media_setter (resp_media previous_response) response
      else if field = ''status''
        then (None, response\<lparr>resp_status := resp_status previous_response\<rparr>)
      else if field = ''stream''
        then (None, response\<lparr>resp_stream := resp_stream previous_response\<rparr>)
      else (None, response))"

definition test_externals :: "snapshot externals" where
  "test_externals =
     \<lparr>dumps = snapshot_dumps, loads = snapshot_loads, from_url = test_from_url,
      dir_response = test_dir, copy_attr = test_copy_attr\<rparr>"

definition empty_state :: "'b state" where
  "empty_state =
     \<lparr>clock = 0, redis_db = Map.empty, redis_log = [],
      req = \<lparr>req_method = ''GET'', req_headers = [], req_context = Map.empty\<rparr>,
      resp = default_response, responder_calls = 0\<rparr>"

text \<open>
  The fixtures of \<^verbatim>\<open>tests/conftest.py\<close>: the middleware built on a supplied connection
  with a TTL of 3600 seconds, the responder of \<^verbatim>\<open>VanillaResource\<close> that puts a fresh
  transaction identifier in the header \<^verbatim>\<open>trans_id\<close> on every call, a responder that
  attaches a stream, and the requests of the tests. A second middleware is built on a URL
  that cannot be parsed.
\<close>

definition test_middleware :: middleware where
  "test_middleware =
     \<lparr>mw_redis_url = None, mw_redis_connection = Some (Redis ''mock''), mw_ttl = 3600\<rparr>"

definition bad_url_middleware :: middleware where
  "bad_url_middleware =
     \<lparr>mw_redis_url = Some ''redis://localhost:abc'', mw_redis_connection = None,
      mw_ttl = 3600\<rparr>"

definition transaction_id :: "nat \<Rightarrow> string" where
  "transaction_id n = replicate (Suc n) (CHR ''t'')"

definition on_post :: responder where
  "on_post n request response = set_header ''trans_id'' (transaction_id n) response"

definition on_post_stream :: responder where
  "on_post_stream n request response = response\<lparr>resp_stream := Some n\<rparr>"

definition post_ABCD :: request where
  "post_ABCD = \<lparr>req_method = ''POST'', req_headers = [(''idempotency-key'', ''ABCD'')],
                req_context = Map.empty\<rparr>"

definition delete_ABCD :: request where
  "delete_ABCD = \<lparr>req_method = ''DELETE'', req_headers = [(''idempotency-key'', ''ABCD'')],
                  req_context = Map.empty\<rparr>"

definition post_empty_key :: request where
  "post_empty_key = \<lparr>req_method = ''POST'', req_headers = [(''idempotency-key'', [])],
                     req_context = Map.empty\<rparr>"

text \<open>
  The state after a first \<^verbatim>\<open>POST\<close> with key \<^verbatim>\<open>ABCD\<close> at time 0, its response, the
  state of that request between the responder and the response hook (with either
  responder), then the same request at time 10 after the request hook (the snapshot is
  stashed) and after the error handler (the snapshot is replayed).
\<close>

definition first_served :: "snapshot state" where
  "first_served =
     snd (simple_dispatch test_externals test_middleware on_post
            (begin_request 0 post_ABCD empty_state))"

definition first_response :: response where
  "first_response =
     \<lparr>resp_status = ''200 OK'', resp_headers = [(''trans_id'', ''t'')], resp_body = None,
      resp_data = None, resp_media = None, resp_stream = None\<rparr>"

definition first_handled :: "snapshot state" where
  "first_handled = call_responder on_post (begin_request 0 post_ABCD empty_state)"

definition stream_handled :: "snapshot state" where
  "stream_handled = call_responder on_post_stream (begin_request 0 post_ABCD empty_state)"

definition replay_stashed :: "snapshot state" where
  "replay_stashed =
     snd (simple_process_request test_externals test_middleware
            (begin_request 10 post_ABCD first_served))"

definition replay_triggered :: "snapshot state" where
  "replay_triggered = snd (simple_handler test_externals test_middleware replay_stashed)"

definition replayed_response :: response where
  "replayed_response =
     \<lparr>resp_status = ''200 OK'',
      resp_headers = [(''trans_id'', ''t''), (''content-type'', ''application/json; charset=UTF-8'')],
      resp_body = None, resp_data = Some ''null'', resp_media = None, resp_stream = None\<rparr>"

section \<open>Facts about the hooks\<close>

lemmas hook_defs = simple_process_request_def simple_process_response_def simple_handler_def
  get_response_from_redis_def store_response_in_redis_def redis_get_def redis_setex_def
  dict_pop_def

lemmas run_defs = Let_def simple_dispatch_def idem_dispatch_def finish_def call_responder_def
  begin_request_def hook_defs idem_process_request_def idem_process_resource_def
  idem_process_response_def idem_handler_def get_header_def idempotency_keyname_def
  redis_key_format_def redis_conn_def test_externals_def snapshot_dumps_def snapshot_loads_def
  test_from_url_def test_dir_def test_copy_attr_def media_setter_def media_handler_exists_def
  default_media_type_def set_header_def test_middleware_def bad_url_middleware_def on_post_def
  on_post_stream_def transaction_id_def post_ABCD_def delete_ABCD_def post_empty_key_def
  empty_state_def default_response_def first_response_def replayed_response_def
  first_handled_def stream_handled_def

lemma separator_unique:
  "x \<notin> set a \<Longrightarrow> x \<notin> set b \<Longrightarrow> a @ x # c = b @ x # d \<Longrightarrow> a = b \<and> c = d"
proof (induction a arbitrary: b)
  case Nil
  then show ?case by (cases b) auto
next
  case (Cons y a)
  then show ?case by (cases b) auto
qed

lemma snd_finish: "snd (finish r a) = snd a"
  by (simp add: finish_def split: sum.splits)

lemma redis_conn_error:
  "redis_conn ext mw = Inl e \<Longrightarrow>
   e = ValueError \<and> mw_redis_connection mw = None \<and> truthy (mw_redis_url mw)
   \<and> from_url ext (the (mw_redis_url mw)) = None"
  by (auto simp: redis_conn_def split: option.splits if_splits)

lemma simple_process_request_sentinel:
  assumes "simple_process_request ext mw s = (Inl SentinelException, s1)"
  shows "\<exists>data expiry prev.
           truthy (get_header (req s) idempotency_keyname)
         \<and> redis_db s (redis_key_format (req_method (req s))
               (the (get_header (req s) idempotency_keyname))) = Some (data, expiry)
         \<and> clock s < expiry \<and> loads ext data = Some prev
         \<and> s1 = s\<lparr>redis_log := redis_log s @ [GET (redis_key_format (req_method (req s))
                       (the (get_header (req s) idempotency_keyname)))],
                  req := (req s)\<lparr>req_context :=
                     (req_context (req s))(get_header (req s) idempotency_keyname \<mapsto> prev)\<rparr>\<rparr>"
  using assms
  by (auto simp: Let_def hook_defs dest: redis_conn_error
      split: option.splits prod.splits sum.splits if_splits)

lemma simple_process_request_req:
  "fst (simple_process_request ext mw s) \<noteq> Inl SentinelException \<Longrightarrow>
   req (snd (simple_process_request ext mw s)) = req s"
  by (auto simp: Let_def hook_defs split: option.splits prod.splits sum.splits if_splits)

lemma simple_process_request_frame:
  "responder_calls (snd (simple_process_request ext mw s)) = responder_calls s"
  "redis_db (snd (simple_process_request ext mw s)) = redis_db s"
  "clock (snd (simple_process_request ext mw s)) = clock s"
  "resp (snd (simple_process_request ext mw s)) = resp s"
  by (auto simp: Let_def hook_defs split: option.splits prod.splits sum.splits if_splits)

lemma simple_process_request_log:
  "truthy (get_header (req s) idempotency_keyname) \<Longrightarrow> redis_conn ext mw = Inr (Some c) \<Longrightarrow>
   redis_log (snd (simple_process_request ext mw s)) =
     redis_log s @ [GET (redis_key_format (req_method (req s))
                      (the (get_header (req s) idempotency_keyname)))]"
  by (auto simp: Let_def hook_defs split: option.splits prod.splits sum.splits if_splits)

lemma simple_handler_frame:
  "responder_calls (snd (simple_handler ext mw s)) = responder_calls s"
  "redis_db (snd (simple_handler ext mw s)) = redis_db s"
  "redis_log (snd (simple_handler ext mw s)) = redis_log s"
  "clock (snd (simple_handler ext mw s)) = clock s"
  "req_method (req (snd (simple_handler ext mw s))) = req_method (req s)"
  "req_headers (req (snd (simple_handler ext mw s))) = req_headers (req s)"
  by (auto simp: Let_def hook_defs split: option.splits prod.splits sum.splits if_splits)

lemma simple_process_response_frame:
  "responder_calls (snd (simple_process_response ext mw s)) = responder_calls s"
  "resp (snd (simple_process_response ext mw s)) = resp s"
  "req (snd (simple_process_response ext mw s)) = req s"
  "clock (snd (simple_process_response ext mw s)) = clock s"
  by (auto simp: Let_def hook_defs split: option.splits prod.splits sum.splits if_splits)

lemma simple_process_request_hit:
  assumes "get_header (req s) idempotency_keyname = Some K" "K \<noteq> []"
    and "redis_conn ext mw = Inr (Some c)"
    and "redis_db s (redis_key_format (req_method (req s)) K) = Some (data, expiry)"
    and "clock s < expiry" "loads ext data = Some prev"
  shows "simple_process_request ext mw s =
     (Inl SentinelException,
      s\<lparr>redis_log := redis_log s @ [GET (redis_key_format (req_method (req s)) K)],
        req := (req s)\<lparr>req_context := (req_context (req s))(Some K \<mapsto> prev)\<rparr>\<rparr>)"
  using assms
  by (auto simp: Let_def hook_defs split: option.splits prod.splits sum.splits if_splits)

text \<open>The concrete runs, evaluated.\<close>

lemma first_dispatch:
  "simple_dispatch test_externals test_middleware on_post (begin_request 0 post_ABCD empty_state)
   = (Inr (),
      \<lparr>clock = 0,
       redis_db = [''FALCON_REQUEST_POST_ABCD'' \<mapsto>
                    ((''200 OK'', [(''trans_id'', ''t'')], None, None, None), 3600)],
       redis_log = [GET ''FALCON_REQUEST_POST_ABCD'',
                    SETEX ''FALCON_REQUEST_POST_ABCD''
                      (''200 OK'', [(''trans_id'', ''t'')], None, None, None) 3600],
       req = post_ABCD,
       resp = first_response,
       responder_calls = 1\<rparr>)"
  by (simp add: run_defs)

lemma first_served_eq:
  "first_served =
      \<lparr>clock = 0,
       redis_db = [''FALCON_REQUEST_POST_ABCD'' \<mapsto>
                    ((''200 OK'', [(''trans_id'', ''t'')], None, None, None), 3600)],
       redis_log = [GET ''FALCON_REQUEST_POST_ABCD'',
                    SETEX ''FALCON_REQUEST_POST_ABCD''
                      (''200 OK'', [(''trans_id'', ''t'')], None, None, None) 3600],
       req = post_ABCD,
       resp = first_response,
       responder_calls = 1\<rparr>"
  by (simp add: first_served_def first_dispatch)

lemma replay_request_hook:
  "simple_process_request test_externals test_middleware
     (begin_request 10 post_ABCD first_served)
   = (Inl SentinelException, replay_stashed)"
  by (simp add: replay_stashed_def first_served_eq run_defs)

lemma replay_stashed_eq:
  "replay_stashed =
     first_served
       \<lparr>clock := 10,
        redis_log := redis_log first_served @ [GET ''FALCON_REQUEST_POST_ABCD''],
        req := post_ABCD\<lparr>req_context := [Some ''ABCD'' \<mapsto> first_response]\<rparr>,
        resp := default_response\<rparr>"
  by (simp add: replay_stashed_def first_served_eq run_defs)

lemma replay_handler:
  "simple_handler test_externals test_middleware replay_stashed
   = (Inr (), replay_stashed\<lparr>req := post_ABCD, resp := replayed_response\<rparr>)"
  by (simp add: replay_stashed_eq first_served_eq run_defs)

lemma replay_triggered_eq:
  "replay_triggered = replay_stashed\<lparr>req := post_ABCD, resp := replayed_response\<rparr>"
  by (simp add: replay_triggered_def replay_handler)

section \<open>Replay of a stored response\<close>

text \<open>
  A first request that completes and runs the responder leaves the serialised response in
  the store, under the key of its method and header value, expiring one TTL later.
\<close>

lemma first_request_stored:
  assumes conn: "redis_conn ext mw = Inr (Some c)"
    and k1: "get_header q1 idempotency_keyname = Some K" "K \<noteq> []"
    and first: "simple_dispatch ext mw h (begin_request t1 q1 s0) = (Inr (), s1)"
    and ran: "responder_calls s1 = Suc (responder_calls s0)"
  shows "\<exists>data. dumps ext (resp s1) = Some data
          \<and> redis_db s1 (redis_key_format (req_method q1) K) = Some (data, t1 + mw_ttl mw)"
proof -
  let ?sA = "begin_request t1 q1 s0"
  obtain r sa where pr: "simple_process_request ext mw ?sA = (r, sa)"
    by (cases "simple_process_request ext mw ?sA") auto
  have calls_sa: "responder_calls sa = responder_calls s0"
    using simple_process_request_frame(1)[of ext mw ?sA] pr by (simp add: begin_request_def)
  show ?thesis
  proof (cases r)
    case (Inl e)
    show ?thesis
    proof (cases "e = SentinelException")
      case True
      have "s1 = snd (simple_handler ext mw sa)"
        using first pr Inl True by (simp add: simple_dispatch_def)
      then have "responder_calls s1 = responder_calls s0"
        using calls_sa by (simp add: simple_handler_frame)
      with ran show ?thesis by simp
    next
      case False
      with first pr Inl have False
        by (auto simp add: simple_dispatch_def)
      then show ?thesis ..
    qed
  next
    case (Inr u)
    have req_sa: "req sa = q1"
      using simple_process_request_req[of ext mw ?sA] pr Inr by (simp add: begin_request_def)
    have clock_sa: "clock sa = t1"
      using simple_process_request_frame(3)[of ext mw ?sA] pr by (simp add: begin_request_def)
    let ?sb = "call_responder h sa"
    have fin: "finish (Inr ()) (simple_process_response ext mw ?sb) = (Inr (), s1)"
      using first pr Inr by (simp add: simple_dispatch_def)
    show ?thesis
    proof (cases "dumps ext (resp ?sb)")
      case None
      with fin conn k1 req_sa have False
        by (auto simp: finish_def simple_process_response_def store_response_in_redis_def
            call_responder_def Let_def)
      then show ?thesis ..
    next
      case (Some data)
      with fin conn k1 req_sa clock_sa show ?thesis
        by (auto simp: finish_def simple_process_response_def store_response_in_redis_def
            call_responder_def redis_setex_def Let_def)
    qed
  qed
qed

text \<open>
  A second request with the same method and header value, before the TTL has elapsed and
  while the entry is in the cache, does not run the responder: its cycle is the handler run
  on the decoded snapshot, so its response is what the attribute-copying loop makes of a
  fresh response.
\<close>

lemma replay_is_copy_loop:
  assumes conn: "redis_conn ext mw = Inr (Some c)"
    and k1: "get_header q1 idempotency_keyname = Some K" "K \<noteq> []"
    and k2: "get_header q2 idempotency_keyname = Some K" "req_method q2 = req_method q1"
    and first: "simple_dispatch ext mw h (begin_request t1 q1 s0) = (Inr (), s1)"
    and ran: "responder_calls s1 = Suc (responder_calls s0)"
    and dec: "decode_encode ext (resp s1) = Some prev"
    and kept: "redis_db s (redis_key_format (req_method q1) K)
                 = redis_db s1 (redis_key_format (req_method q1) K)"
    and ttl: "t2 < t1 + mw_ttl mw"
  shows "responder_calls (snd (simple_dispatch ext mw h (begin_request t2 q2 s)))
           = responder_calls s
       \<and> resp (snd (simple_dispatch ext mw h (begin_request t2 q2 s)))
           = snd (copy_attrs (copy_attr ext) prev (dir_response ext prev) default_response)
       \<and> (fst (simple_dispatch ext mw h (begin_request t2 q2 s)) = Inr () \<longleftrightarrow>
            fst (copy_attrs (copy_attr ext) prev (dir_response ext prev) default_response) = None)"
proof -
  from first_request_stored[OF conn k1 first ran] obtain data where
    enc: "dumps ext (resp s1) = Some data" and
    db: "redis_db s1 (redis_key_format (req_method q1) K) = Some (data, t1 + mw_ttl mw)"
    by blast
  from dec enc have dec': "loads ext data = Some prev" by (simp add: decode_encode_def)
  let ?sB = "begin_request t2 q2 s"
  have a1: "get_header (req ?sB) idempotency_keyname = Some K"
    using k2 by (simp add: begin_request_def)
  have a2: "redis_db ?sB (redis_key_format (req_method (req ?sB)) K) = Some (data, t1 + mw_ttl mw)"
    using k2 db kept by (simp add: begin_request_def)
  have a3: "clock ?sB < t1 + mw_ttl mw"
    using ttl by (simp add: begin_request_def)
  note hit = simple_process_request_hit[OF a1 k1(2) conn a2 a3 dec']
  let ?sa = "?sB\<lparr>redis_log := redis_log ?sB @ [GET (redis_key_format (req_method (req ?sB)) K)],
        req := (req ?sB)\<lparr>req_context := (req_context (req ?sB))(Some K \<mapsto> prev)\<rparr>\<rparr>"
  have disp: "simple_dispatch ext mw h ?sB = simple_handler ext mw ?sa"
    unfolding simple_dispatch_def hit by simp
  have key_sa: "get_header (req ?sa) idempotency_keyname = Some K"
    using k2 by (simp add: get_header_def begin_request_def)
  have resp_sa: "resp ?sa = default_response" "responder_calls ?sa = responder_calls s"
    by (simp_all add: begin_request_def)
  show ?thesis
    unfolding disp using key_sa resp_sa
    by (auto simp: simple_handler_def dict_pop_def Let_def split: prod.splits option.splits)
qed

text \<open>
  C1. The conftest application, a \<^verbatim>\<open>POST\<close> with key \<^verbatim>\<open>ABCD\<close> at time 0 and again at time
  10, within the TTL of 3600. The second request is answered without running the
  responder, but its response is not the first one: the loop of the handler also assigns
  the property \<^verbatim>\<open>media\<close>, whose setter gives the response a content type and the body
  \<^verbatim>\<open>null\<close>. The same holds of \<^verbatim>\<open>IdempotencyMiddleware\<close> on a resource that opts in.
\<close>

theorem replayed_response_differs:
  "fst (simple_dispatch test_externals test_middleware on_post
          (begin_request 10 post_ABCD first_served)) = Inr ()
   \<and> responder_calls (snd (simple_dispatch test_externals test_middleware on_post
          (begin_request 10 post_ABCD first_served))) = responder_calls first_served
   \<and> resp first_served = first_response
   \<and> resp (snd (simple_dispatch test_externals test_middleware on_post
          (begin_request 10 post_ABCD first_served))) = replayed_response
   \<and> resp (snd (idem_dispatch test_externals test_middleware POSTOnly on_post
          (begin_request 10 post_ABCD first_served))) = replayed_response
   \<and> resp_headers replayed_response \<noteq> resp_headers first_response
   \<and> rendered_body replayed_response \<noteq> rendered_body first_response
   \<and> \<not> observably_equal replayed_response first_response"
proof -
  have simple: "simple_dispatch test_externals test_middleware on_post
      (begin_request 10 post_ABCD first_served)
      = (Inr (), replay_stashed\<lparr>req := post_ABCD, resp := replayed_response\<rparr>)"
    by (simp add: simple_dispatch_def replay_request_hook replay_handler)
  have post: "req_method (req (begin_request 10 post_ABCD first_served)) = ''POST''"
    by (simp add: begin_request_def post_ABCD_def)
  have flag: "is_True (getattr_default (idempotent_post POSTOnly) PyNone)"
    by (simp add: POSTOnly_def VanillaResource_def IdempotentPostMixin_idempotent_post_def
        is_True_def getattr_default_def)
  have idem: "snd (idem_dispatch test_externals test_middleware POSTOnly on_post
      (begin_request 10 post_ABCD first_served))
      = snd (simple_process_response test_externals test_middleware
               (replay_stashed\<lparr>req := post_ABCD, resp := replayed_response\<rparr>))"
    by (simp add: idem_dispatch_def idem_process_request_def idem_process_resource_def post flag
        replay_request_hook idem_handler_def replay_handler idem_process_response_def snd_finish)
  show ?thesis
    unfolding simple idem
    by (simp add: simple_process_response_frame replay_stashed_eq first_served_eq
        observably_equal_def rendered_body_def replayed_response_def first_response_def)
qed

section \<open>The snapshot through the cache\<close>




section \<open>The cache key\<close>

theorem redis_key_collision:
  "\<not> (redis_key_format ''A'' ''B_C'' = redis_key_format ''A_B'' ''C''
        \<longleftrightarrow> ''A'' = ''A_B'' \<and> ''B_C'' = ''C'')"
  by (simp add: redis_key_format_def)

text \<open>
  C3 (amended). The cache key is a function of the method and the header value alone. For
  two methods that contain no underscore, as is the case of every standard verb, the keys
  of \<open>(m1, h1)\<close> and \<open>(m2, h2)\<close> are equal if and only if \<open>m1 = m2\<close> and \<open>h1 = h2\<close>; and under
  one and the same method, whatever it is, two header values give the same key only if they
  are equal.
\<close>

theorem redis_key_injective:
  "(CHR ''_'' \<notin> set m1 \<and> CHR ''_'' \<notin> set m2 \<longrightarrow>
      (redis_key_format m1 h1 = redis_key_format m2 h2 \<longleftrightarrow> m1 = m2 \<and> h1 = h2))
   \<and> (redis_key_format m h1 = redis_key_format m h2 \<longleftrightarrow> h1 = h2)"
  using separator_unique[of "CHR ''_''" m1 m2 h1 h2]
  by (auto simp add: redis_key_format_def)

theorem redis_key_injective_witness:
  "CHR ''_'' \<notin> set ''POST'' \<and> CHR ''_'' \<notin> set ''DELETE''
   \<and> redis_key_format ''POST'' ''ABCD'' \<noteq> redis_key_format ''DELETE'' ''ABCD''
   \<and> redis_key_format ''POST'' ''ABCD'' \<noteq> redis_key_format ''POST'' ''DEFG''"
  using redis_key_injective
      [where ?m1.0="''POST''" and ?m2.0="''DELETE''" and ?h1.0="''ABCD''" and ?h2.0="''ABCD''"
         and m="''POST''"]
    redis_key_injective
      [where ?m1.0="''POST''" and ?m2.0="''POST''" and ?h1.0="''ABCD''" and ?h2.0="''DEFG''"
         and m="''POST''"]
  by simp

section \<open>The response hook\<close>

theorem replay_rewrites_cache:
  "fst (simple_process_request test_externals test_middleware
          (begin_request 10 post_ABCD first_served)) = Inl SentinelException
   \<and> fst (simple_handler test_externals test_middleware replay_stashed) = Inr ()
   \<and> redis_db (snd (simple_process_response test_externals test_middleware replay_triggered))
       ''FALCON_REQUEST_POST_ABCD''
     \<noteq> redis_db replay_triggered ''FALCON_REQUEST_POST_ABCD''"
  by (simp add: replay_request_hook replay_handler replay_triggered_eq replay_stashed_eq
      first_served_eq run_defs)

text \<open>
  C4 (amended). The response hook writes to the cache whenever the request carries a
  non-empty idempotency header value, whether or not a cached response was replayed for
  that request, and in both middleware classes: it stores the serialised response under the
  key of the method and header value, with the configured TTL counted from the current
  time. For a request whose header is absent or empty it does nothing, and the cache is
  unchanged.
\<close>

theorem process_response_stores_iff_key:
  "(\<not> truthy (get_header (req s) idempotency_keyname) \<longrightarrow>
       simple_process_response ext mw s = (Inr (), s))
   \<and> (truthy (get_header (req s) idempotency_keyname) \<and> redis_conn ext mw = Inr (Some c)
        \<and> dumps ext (resp s) = Some data \<longrightarrow>
       simple_process_response ext mw s =
         (Inr (),
          s\<lparr>redis_db := (redis_db s)
               (redis_key_format (req_method (req s))
                  (the (get_header (req s) idempotency_keyname)) \<mapsto> (data, clock s + mw_ttl mw)),
            redis_log := redis_log s @
               [SETEX (redis_key_format (req_method (req s))
                         (the (get_header (req s) idempotency_keyname))) data (mw_ttl mw)]\<rparr>))
   \<and> (simple_process_request ext mw s0 = (Inl SentinelException, s1)
        \<and> simple_handler ext mw s1 = (Inr (), s) \<and> redis_conn ext mw = Inr (Some c)
        \<and> dumps ext (resp s) = Some data \<longrightarrow>
       redis_log (snd (simple_process_response ext mw s)) \<noteq> redis_log s)
   \<and> idem_process_response ext mw s = simple_process_response ext mw s"
proof -
  have replay: "truthy (get_header (req s) idempotency_keyname)"
    if "simple_process_request ext mw s0 = (Inl SentinelException, s1)"
      and "simple_handler ext mw s1 = (Inr (), s)"
  proof -
    from simple_process_request_sentinel[OF that(1)]
    have "truthy (get_header (req s0) idempotency_keyname)"
      and "req_headers (req s1) = req_headers (req s0)"
      by auto
    moreover from simple_handler_frame(6)[of ext mw s1] that(2)
    have "req_headers (req s) = req_headers (req s1)" by simp
    ultimately show ?thesis by (simp add: get_header_def)
  qed
  show ?thesis
    using replay
    by (auto simp: Let_def simple_process_response_def store_response_in_redis_def
        idem_process_response_def redis_setex_def)
qed

theorem process_response_stores_iff_key_witness:
  "simple_process_response test_externals test_middleware
      (call_responder on_post (begin_request 0 post_empty_key empty_state))
     = (Inr (), call_responder on_post (begin_request 0 post_empty_key empty_state))
   \<and> redis_db (snd (simple_process_response test_externals test_middleware replay_triggered))
       ''FALCON_REQUEST_POST_ABCD''
     = Some ((''200 OK'',
              [(''trans_id'', ''t''), (''content-type'', ''application/json; charset=UTF-8'')],
              None, Some ''null'', None), 3610)
   \<and> redis_log (snd (simple_process_response test_externals test_middleware replay_triggered))
     \<noteq> redis_log replay_triggered"
proof -
  have conn: "redis_conn test_externals test_middleware = Inr (Some (Redis ''mock''))"
    by (simp add: redis_conn_def test_middleware_def)
  have nokey: "\<not> truthy (get_header
      (req (call_responder on_post (begin_request 0 post_empty_key (empty_state :: snapshot state))))
      idempotency_keyname)"
    by (simp add: run_defs)
  have key: "truthy (get_header (req replay_triggered) idempotency_keyname)"
    "the (get_header (req replay_triggered) idempotency_keyname) = ''ABCD''"
    "req_method (req replay_triggered) = ''POST''" "clock replay_triggered = 10"
    by (simp_all add: replay_triggered_eq replay_stashed_eq first_served_eq get_header_def
        idempotency_keyname_def post_ABCD_def)
  have enc: "dumps test_externals (resp replay_triggered)
      = Some (''200 OK'',
              [(''trans_id'', ''t''), (''content-type'', ''application/json; charset=UTF-8'')],
              None, Some ''null'', None)"
    by (simp add: replay_triggered_eq replayed_response_def test_externals_def snapshot_dumps_def)
  have hd: "simple_handler test_externals test_middleware replay_stashed = (Inr (), replay_triggered)"
    by (simp add: replay_handler replay_triggered_eq)
  note t1 = process_response_stores_iff_key
    [where s="call_responder on_post (begin_request 0 post_empty_key empty_state)"
       and ext=test_externals and mw=test_middleware, THEN conjunct1, rule_format, OF nokey]
  note t = process_response_stores_iff_key
    [where s=replay_triggered and mw=test_middleware and ext=test_externals
       and c="Redis ''mock''" and ?s0.0="begin_request 10 post_ABCD first_served"
       and ?s1.0=replay_stashed, THEN conjunct2]
  from t[THEN conjunct1, rule_format, OF conjI[OF key(1) conjI[OF conn enc]]]
  have "redis_db (snd (simple_process_response test_externals test_middleware replay_triggered))
       ''FALCON_REQUEST_POST_ABCD''
     = Some ((''200 OK'',
              [(''trans_id'', ''t''), (''content-type'', ''application/json; charset=UTF-8'')],
              None, Some ''null'', None), 3610)"
    by (simp add: key redis_key_format_def test_middleware_def)
  moreover from t[THEN conjunct2, THEN conjunct1, rule_format,
      OF conjI[OF replay_request_hook conjI[OF hd conjI[OF conn enc]]]]
  have "redis_log (snd (simple_process_response test_externals test_middleware replay_triggered))
     \<noteq> redis_log replay_triggered" .
  ultimately show ?thesis using t1 by simp
qed

section \<open>The opt-in policy\<close>

text \<open>
  C5. In \<^verbatim>\<open>IdempotencyMiddleware\<close> the request hook does nothing, and the resource hook runs
  the lookup of \<^verbatim>\<open>SimpleIdempotencyMiddleware.process_request\<close> exactly when the method is
  \<^verbatim>\<open>POST\<close> and the resource's \<^verbatim>\<open>idempotent_post\<close> is \<^verbatim>\<open>True\<close> itself, or the method is
  \<^verbatim>\<open>DELETE\<close> and its \<^verbatim>\<open>idempotent_delete\<close> is \<^verbatim>\<open>True\<close> itself. In every other case (another
  method, an attribute that is absent or holds any other value) the hook returns normally
  and leaves the state as it was; in particular the cache receives a command from the
  request of a keyed request exactly in the first case.
\<close>

theorem process_resource_opt_in:
  "idem_process_request ext mw s = (Inr (), s)
   \<and> idem_process_resource ext mw rsrc s =
      (if (req_method (req s) = ''POST'' \<and> idempotent_post rsrc = Some (PyBool True))
          \<or> (req_method (req s) = ''DELETE'' \<and> idempotent_delete rsrc = Some (PyBool True))
       then simple_process_request ext mw s else (Inr (), s))
   \<and> (truthy (get_header (req s) idempotency_keyname) \<and> redis_conn ext mw = Inr (Some c) \<longrightarrow>
        (redis_log (snd (idem_process_resource ext mw rsrc s)) \<noteq> redis_log s \<longleftrightarrow>
           (req_method (req s) = ''POST'' \<and> idempotent_post rsrc = Some (PyBool True))
         \<or> (req_method (req s) = ''DELETE'' \<and> idempotent_delete rsrc = Some (PyBool True))))"
proof -
  have eq: "idem_process_resource ext mw rsrc s =
      (if (req_method (req s) = ''POST'' \<and> idempotent_post rsrc = Some (PyBool True))
          \<or> (req_method (req s) = ''DELETE'' \<and> idempotent_delete rsrc = Some (PyBool True))
       then simple_process_request ext mw s else (Inr (), s))"
    by (auto simp: idem_process_resource_def is_True_def getattr_default_def
        split: option.splits)
  show ?thesis
    unfolding eq by (simp add: idem_process_request_def simple_process_request_log)
qed

theorem process_resource_opt_in_witness:
  "idem_process_resource test_externals test_middleware POSTOnly
       (begin_request 10 post_ABCD first_served) = (Inl SentinelException, replay_stashed)
   \<and> idem_process_resource test_externals test_middleware POSTOnly
       (begin_request 10 delete_ABCD first_served) = (Inr (), begin_request 10 delete_ABCD first_served)
   \<and> idem_process_resource test_externals test_middleware
       (VanillaResource\<lparr>idempotent_post := Some (PyInt 1)\<rparr>)
       (begin_request 10 post_ABCD first_served) = (Inr (), begin_request 10 post_ABCD first_served)
   \<and> redis_log (snd (idem_process_resource test_externals test_middleware DELETEOnly
       (begin_request 10 delete_ABCD first_served))) \<noteq> redis_log (begin_request 10 delete_ABCD first_served)"
proof -
  note opt_in = process_resource_opt_in
    [where ext=test_externals and mw=test_middleware and c="Redis ''mock''"]
  have post: "req_method (req (begin_request 10 post_ABCD first_served)) = ''POST''"
    by (simp add: begin_request_def post_ABCD_def)
  have delete: "req_method (req (begin_request 10 delete_ABCD first_served)) = ''DELETE''"
    by (simp add: begin_request_def delete_ABCD_def)
  have key: "truthy (get_header (req (begin_request 10 delete_ABCD first_served))
                       idempotency_keyname)"
    by (simp add: begin_request_def delete_ABCD_def get_header_def idempotency_keyname_def)
  have conn: "redis_conn test_externals test_middleware = Inr (Some (Redis ''mock''))"
    by (simp add: redis_conn_def test_middleware_def)
  have flags: "idempotent_post POSTOnly = Some (PyBool True)" "idempotent_delete POSTOnly = None"
    "idempotent_delete DELETEOnly = Some (PyBool True)"
    "idempotent_post (VanillaResource\<lparr>idempotent_post := Some (PyInt 1)\<rparr>) = Some (PyInt 1)"
    by (simp_all add: POSTOnly_def DELETEOnly_def VanillaResource_def
        IdempotentPostMixin_idempotent_post_def IdempotentDeleteMixin_idempotent_delete_def)
  have "idem_process_resource test_externals test_middleware POSTOnly
       (begin_request 10 post_ABCD first_served) = (Inl SentinelException, replay_stashed)"
    using opt_in[where rsrc=POSTOnly and s="begin_request 10 post_ABCD first_served"]
      replay_request_hook
    by (simp add: post flags)
  moreover have "idem_process_resource test_externals test_middleware POSTOnly
       (begin_request 10 delete_ABCD first_served)
       = (Inr (), begin_request 10 delete_ABCD first_served)"
    using opt_in[where rsrc=POSTOnly and s="begin_request 10 delete_ABCD first_served"]
    by (simp add: delete flags)
  moreover have "idem_process_resource test_externals test_middleware
       (VanillaResource\<lparr>idempotent_post := Some (PyInt 1)\<rparr>)
       (begin_request 10 post_ABCD first_served)
       = (Inr (), begin_request 10 post_ABCD first_served)"
    using opt_in[where rsrc="VanillaResource\<lparr>idempotent_post := Some (PyInt 1)\<rparr>"
        and s="begin_request 10 post_ABCD first_served"]
    by (simp add: post flags)
  moreover have "redis_log (snd (idem_process_resource test_externals test_middleware DELETEOnly
       (begin_request 10 delete_ABCD first_served)))
       \<noteq> redis_log (begin_request 10 delete_ABCD first_served)"
    using opt_in[where rsrc=DELETEOnly and s="begin_request 10 delete_ABCD first_served",
        THEN conjunct2, THEN conjunct2] key conn
    by (simp add: delete flags)
  ultimately show ?thesis by simp
qed

section \<open>A response that cannot be serialised\<close>

theorem pickling_error_propagates:
  "dumps test_externals (on_post_stream 0 post_ABCD default_response) = None
   \<and> fst (simple_dispatch test_externals test_middleware on_post_stream
            (begin_request 0 post_ABCD empty_state)) = Inl PicklingError"
  by (simp add: run_defs)

text \<open>
  C6 (amended). When the response of a keyed request cannot be serialised, the response
  hook writes nothing to the cache and leaves the response object as the handler made it,
  but it does not catch the failure: the error leaves the hook, in both middleware classes,
  and is the outcome of the request cycle.
\<close>

theorem pickling_error_skips_store:
  assumes "truthy (get_header (req s) idempotency_keyname)"
    and "redis_conn ext mw = Inr (Some c)"
    and "dumps ext (resp s) = None"
  shows "simple_process_response ext mw s = (Inl PicklingError, s)
       \<and> idem_process_response ext mw s = (Inl PicklingError, s)
       \<and> finish r (simple_process_response ext mw s) = (Inl PicklingError, s)"
  using assms
  by (auto simp: Let_def simple_process_response_def store_response_in_redis_def
      idem_process_response_def finish_def)

theorem pickling_error_skips_store_witness:
  "simple_process_response test_externals test_middleware stream_handled
   = (Inl PicklingError, stream_handled)"
  using pickling_error_skips_store
      [where ext=test_externals and mw=test_middleware and s=stream_handled
         and c="Redis ''mock''"]
  by (simp add: run_defs)

section \<open>Requests without a key\<close>

text \<open>
  C8. For a request whose idempotency header is absent or empty, under either middleware
  class, the request cycle completes without error, runs the responder once, sends no
  command to the cache (neither a read nor a write), and leaves the cache contents as they
  were.
\<close>

theorem no_key_passthrough:
  assumes "\<not> truthy (get_header (req s) idempotency_keyname)"
  shows "simple_dispatch ext mw h s = (Inr (), call_responder h s)
       \<and> idem_dispatch ext mw rsrc h s = (Inr (), call_responder h s)
       \<and> responder_calls (call_responder h s) = Suc (responder_calls s)
       \<and> redis_log (call_responder h s) = redis_log s
       \<and> redis_db (call_responder h s) = redis_db s"
  using assms
  by (simp add: simple_dispatch_def idem_dispatch_def idem_process_request_def
      idem_process_resource_def idem_process_response_def simple_process_request_def
      simple_process_response_def call_responder_def finish_def Let_def)

theorem no_key_passthrough_witness:
  "simple_dispatch test_externals test_middleware on_post
       (begin_request 10 post_empty_key first_served)
     = (Inr (), call_responder on_post (begin_request 10 post_empty_key first_served))
   \<and> idem_dispatch test_externals test_middleware POSTOnly on_post
       (begin_request 10 post_empty_key first_served)
     = (Inr (), call_responder on_post (begin_request 10 post_empty_key first_served))
   \<and> redis_log (call_responder on_post (begin_request 10 post_empty_key first_served))
     = redis_log first_served
   \<and> redis_db (call_responder on_post (begin_request 10 post_empty_key first_served))
     = redis_db first_served"
  using no_key_passthrough
      [where s="begin_request 10 post_empty_key first_served" and ext=test_externals
         and mw=test_middleware and h=on_post and rsrc=POSTOnly]
  by (simp add: begin_request_def post_empty_key_def get_header_def idempotency_keyname_def)

section \<open>The replay handler and the request context\<close>

text \<open>
  The context through a request cycle that starts with an empty context: exactly one entry,
  under the header value, when the request hook raises the signal; none when it does not;
  none at the end of the cycle, whatever the copying loop does.
\<close>

lemma context_lifecycle:
  assumes fresh: "req_context (req s) = Map.empty"
  shows "(simple_process_request ext mw s = (Inl SentinelException, s1) \<longrightarrow>
           (\<exists>prev. req_context (req s1) = [get_header (req s) idempotency_keyname \<mapsto> prev]
              \<and> req_context (req (snd (simple_handler ext mw s1))) = Map.empty))
       \<and> (fst (simple_process_request ext mw s) \<noteq> Inl SentinelException \<longrightarrow>
           req_context (req (snd (simple_process_request ext mw s))) = Map.empty)
       \<and> req_context (req (snd (simple_dispatch ext mw h s))) = Map.empty"
proof (intro conjI)
  show hit: "simple_process_request ext mw s = (Inl SentinelException, s1) \<longrightarrow>
           (\<exists>prev. req_context (req s1) = [get_header (req s) idempotency_keyname \<mapsto> prev]
              \<and> req_context (req (snd (simple_handler ext mw s1))) = Map.empty)" for s1
  proof
    assume "simple_process_request ext mw s = (Inl SentinelException, s1)"
    from simple_process_request_sentinel[OF this] fresh
    show "\<exists>prev. req_context (req s1) = [get_header (req s) idempotency_keyname \<mapsto> prev]
              \<and> req_context (req (snd (simple_handler ext mw s1))) = Map.empty"
      by (auto simp: simple_handler_def dict_pop_def get_header_def Let_def
          split: prod.splits option.splits)
  qed
  show "fst (simple_process_request ext mw s) \<noteq> Inl SentinelException \<longrightarrow>
           req_context (req (snd (simple_process_request ext mw s))) = Map.empty"
    using fresh by (simp add: simple_process_request_req)
  show "req_context (req (snd (simple_dispatch ext mw h s))) = Map.empty"
  proof (cases "fst (simple_process_request ext mw s) = Inl SentinelException")
    case True
    then obtain s1' where eq: "simple_process_request ext mw s = (Inl SentinelException, s1')"
      by (cases "simple_process_request ext mw s") auto
    with hit[of s1'] show ?thesis
      by (auto simp add: simple_dispatch_def)
  next
    case False
    from simple_process_request_req[OF False] fresh
    have ctx: "req_context (req (snd (simple_process_request ext mw s))) = Map.empty" by simp
    obtain r s1' where eq: "simple_process_request ext mw s = (r, s1')"
      by (cases "simple_process_request ext mw s") auto
    with False ctx have "r \<noteq> Inl SentinelException" "req_context (req s1') = Map.empty" by auto
    with eq show ?thesis
      by (cases r)
        (auto simp add: simple_dispatch_def snd_finish simple_process_response_frame
          call_responder_def)
  qed
qed

text \<open>
  C7. The replay of the conftest application: the request hook stashes the snapshot as
  the one entry of the context, under the header value, and the handler removes it, so the
  context is empty again. But the handler does not leave the snapshot as the outgoing
  response: its loop assigns every name of \<^verbatim>\<open>dir\<close>, the property \<^verbatim>\<open>media\<close> among them,
  and the setter of \<^verbatim>\<open>media\<close> adds a content type to the headers and sets \<^verbatim>\<open>data\<close> to
  \<^verbatim>\<open>null\<close>, which the snapshot does not have.
\<close>

theorem replay_copy_runs_media_setter:
  "simple_process_request test_externals test_middleware
      (begin_request 10 post_ABCD first_served) = (Inl SentinelException, replay_stashed)
   \<and> req_context (req replay_stashed) = [Some ''ABCD'' \<mapsto> first_response]
   \<and> simple_handler test_externals test_middleware replay_stashed = (Inr (), replay_triggered)
   \<and> req_context (req replay_triggered) = Map.empty
   \<and> resp replay_triggered = replayed_response
   \<and> replayed_response \<noteq> first_response
   \<and> resp_headers replayed_response
       = resp_headers first_response @ [(''content-type'', ''application/json; charset=UTF-8'')]
   \<and> resp_data replayed_response = Some ''null'' \<and> resp_data first_response = None"
proof -
  have "req_context (req replay_stashed) = [Some ''ABCD'' \<mapsto> first_response]"
    by (simp add: replay_stashed_eq)
  moreover have "simple_handler test_externals test_middleware replay_stashed
      = (Inr (), replay_triggered)"
    by (simp add: replay_handler replay_triggered_eq)
  moreover have "req_context (req replay_triggered) = Map.empty"
    by (simp add: replay_triggered_eq post_ABCD_def)
  moreover have "resp replay_triggered = replayed_response"
    by (simp add: replay_triggered_eq)
  moreover have "replayed_response \<noteq> first_response"
    "resp_headers replayed_response
       = resp_headers first_response @ [(''content-type'', ''application/json; charset=UTF-8'')]"
    "resp_data replayed_response = Some ''null''" "resp_data first_response = None"
    by (simp_all add: replayed_response_def first_response_def)
  ultimately show ?thesis
    using replay_request_hook by simp
qed

section \<open>Construction\<close>




section \<open>The handler without a stashed snapshot\<close>



end
